theory Spec2Isabelle
  imports Main "HOL-Library.Word"
begin

unbundle bit_operations_syntax

section \<open>Machine types\<close>

text \<open>
  Go's \<open>byte\<close>, \<open>uint32\<close> and \<open>uint64\<close> are words of the corresponding width: addition
  wraps, and the bitwise operators of the source are the bitwise operators of HOL.
\<close>

type_synonym byte = "8 word"
type_synonym uint32 = "32 word"
type_synonym uint64 = "64 word"

section \<open>Library functions used by the package\<close>

subsection \<open>Decimal rendering and parsing of unsigned integers\<close>

text \<open>
  \<open>fmt.Sprintf("%d", x)\<close> and \<open>strconv.FormatUint(x, 10)\<close> on a \<open>uint64\<close>: the decimal
  digits of the value, most significant first, no sign, no leading zero, \<open>0\<close> for zero.
\<close>

definition digit_char :: "nat \<Rightarrow> char" where
  "digit_char d = ''0123456789'' ! d"

fun format_nat :: "nat \<Rightarrow> string" where
  "format_nat n =
     (if n < 10 then [digit_char n] else format_nat (n div 10) @ [digit_char (n mod 10)])"

declare format_nat.simps [simp del]

definition FormatUint :: "uint64 \<Rightarrow> string" where
  "FormatUint x = format_nat (unat x)"

text \<open>
  \<open>strconv.ParseUint(s, 10, 64)\<close>: the value of a non-empty string of decimal digits
  that fits 64 bits; a syntax or a range error otherwise (here \<open>None\<close>: the callers
  only test the error against \<open>nil\<close>).
\<close>

definition is_digit :: "char \<Rightarrow> bool" where
  "is_digit c = (c \<in> set ''0123456789'')"

definition digit_val :: "char \<Rightarrow> nat" where
  "digit_val c = (of_char c :: nat) - 48"

definition dec_value :: "string \<Rightarrow> nat" where
  "dec_value s = foldl (\<lambda>acc c. 10 * acc + digit_val c) 0 s"

definition ParseUint :: "string \<Rightarrow> uint64 option" where
  "ParseUint s =
     (if s = [] \<or> \<not> list_all is_digit s then None
      else if dec_value s < 2 ^ 64 then Some (word_of_nat (dec_value s))
      else None)"

subsection \<open>SHA-256\<close>

text \<open>
  \<open>crypto/sha256.Sum256\<close> of the Go standard library computes the SHA-256 digest of
  FIPS 180-4: the message is padded to a multiple of 64 bytes, and each block is
  compressed into eight 32-bit words by 64 rounds.
\<close>

definition sha256_K :: "uint32 list" where
  "sha256_K =
    [0x428A2F98, 0x71374491, 0xB5C0FBCF, 0xE9B5DBA5,
     0x3956C25B, 0x59F111F1, 0x923F82A4, 0xAB1C5ED5,
     0xD807AA98, 0x12835B01, 0x243185BE, 0x550C7DC3,
     0x72BE5D74, 0x80DEB1FE, 0x9BDC06A7, 0xC19BF174,
     0xE49B69C1, 0xEFBE4786, 0x0FC19DC6, 0x240CA1CC,
     0x2DE92C6F, 0x4A7484AA, 0x5CB0A9DC, 0x76F988DA,
     0x983E5152, 0xA831C66D, 0xB00327C8, 0xBF597FC7,
     0xC6E00BF3, 0xD5A79147, 0x06CA6351, 0x14292967,
     0x27B70A85, 0x2E1B2138, 0x4D2C6DFC, 0x53380D13,
     0x650A7354, 0x766A0ABB, 0x81C2C92E, 0x92722C85,
     0xA2BFE8A1, 0xA81A664B, 0xC24B8B70, 0xC76C51A3,
     0xD192E819, 0xD6990624, 0xF40E3585, 0x106AA070,
     0x19A4C116, 0x1E376C08, 0x2748774C, 0x34B0BCB5,
     0x391C0CB3, 0x4ED8AA4A, 0x5B9CCA4F, 0x682E6FF3,
     0x748F82EE, 0x78A5636F, 0x84C87814, 0x8CC70208,
     0x90BEFFFA, 0xA4506CEB, 0xBEF9A3F7, 0xC67178F2]"

definition sha256_init ::
  "uint32 \<times> uint32 \<times> uint32 \<times> uint32 \<times> uint32 \<times> uint32 \<times> uint32 \<times> uint32" where
  "sha256_init =
    (0x6A09E667, 0xBB67AE85, 0x3C6EF372, 0xA54FF53A,
     0x510E527F, 0x9B05688C, 0x1F83D9AB, 0x5BE0CD19)"

definition rotr32 :: "nat \<Rightarrow> uint32 \<Rightarrow> uint32" where
  "rotr32 n x = drop_bit n x OR push_bit (32 - n) x"

definition Ch :: "uint32 \<Rightarrow> uint32 \<Rightarrow> uint32 \<Rightarrow> uint32" where
  "Ch x y z = (x AND y) XOR (NOT x AND z)"

definition Maj :: "uint32 \<Rightarrow> uint32 \<Rightarrow> uint32 \<Rightarrow> uint32" where
  "Maj x y z = (x AND y) XOR (x AND z) XOR (y AND z)"

definition bsig0 :: "uint32 \<Rightarrow> uint32" where
  "bsig0 x = rotr32 2 x XOR rotr32 13 x XOR rotr32 22 x"

definition bsig1 :: "uint32 \<Rightarrow> uint32" where
  "bsig1 x = rotr32 6 x XOR rotr32 11 x XOR rotr32 25 x"

definition ssig0 :: "uint32 \<Rightarrow> uint32" where
  "ssig0 x = rotr32 7 x XOR rotr32 18 x XOR drop_bit 3 x"

definition ssig1 :: "uint32 \<Rightarrow> uint32" where
  "ssig1 x = rotr32 17 x XOR rotr32 19 x XOR drop_bit 10 x"

text \<open>Big-endian conversions between bytes and words.\<close>

definition be_bytes32 :: "uint32 \<Rightarrow> byte list" where
  "be_bytes32 x = map (\<lambda>i. ucast (drop_bit (8 * i) x)) [3, 2, 1, 0]"

definition be_bytes64 :: "uint64 \<Rightarrow> byte list" where
  "be_bytes64 x = map (\<lambda>i. ucast (drop_bit (8 * i) x)) [7, 6, 5, 4, 3, 2, 1, 0]"

definition be_word32 :: "byte list \<Rightarrow> uint32" where
  "be_word32 bs = foldl (\<lambda>acc b. push_bit 8 acc OR ucast b) 0 bs"

text \<open>
  Padding: the byte \<open>0x80\<close>, zero bytes up to 56 modulo 64, and the length of the message
  in bits as a 64-bit big-endian integer.
\<close>

definition sha256_pad :: "byte list \<Rightarrow> byte list" where
  "sha256_pad m =
     m @ [0x80] @ replicate ((119 - length m mod 64) mod 64) 0
       @ be_bytes64 (word_of_nat (8 * length m))"

fun sha256_blocks :: "nat \<Rightarrow> byte list \<Rightarrow> byte list list" where
  "sha256_blocks 0 bs = []"
| "sha256_blocks (Suc n) bs = take 64 bs # sha256_blocks n (drop 64 bs)"

fun sha256_words :: "nat \<Rightarrow> byte list \<Rightarrow> uint32 list" where
  "sha256_words 0 bs = []"
| "sha256_words (Suc n) bs = be_word32 (take 4 bs) # sha256_words n (drop 4 bs)"

text \<open>The message schedule: 16 words of the block, extended to 64.\<close>

fun sha256_schedule :: "nat \<Rightarrow> uint32 list \<Rightarrow> uint32 list" where
  "sha256_schedule 0 w = w"
| "sha256_schedule (Suc n) w =
     sha256_schedule n
       (w @ [ssig1 (w ! (length w - 2)) + w ! (length w - 7)
             + ssig0 (w ! (length w - 15)) + w ! (length w - 16)])"

type_synonym sha256_state =
  "uint32 \<times> uint32 \<times> uint32 \<times> uint32 \<times> uint32 \<times> uint32 \<times> uint32 \<times> uint32"

fun sha256_round :: "sha256_state \<Rightarrow> uint32 \<times> uint32 \<Rightarrow> sha256_state" where
  "sha256_round (a, b, c, d, e, f, g, h) (k, w) =
     (let t1 = h + bsig1 e + Ch e f g + k + w;
          t2 = bsig0 a + Maj a b c
      in (t1 + t2, a, b, c, d + t1, e, f, g))"

fun sha256_add :: "sha256_state \<Rightarrow> sha256_state \<Rightarrow> sha256_state" where
  "sha256_add (a, b, c, d, e, f, g, h) (a', b', c', d', e', f', g', h') =
     (a + a', b + b', c + c', d + d', e + e', f + f', g + g', h + h')"

definition sha256_compress :: "sha256_state \<Rightarrow> byte list \<Rightarrow> sha256_state" where
  "sha256_compress st blk =
     sha256_add st
       (foldl sha256_round st (zip sha256_K (sha256_schedule 48 (sha256_words 16 blk))))"

fun sha256_digest :: "sha256_state \<Rightarrow> byte list" where
  "sha256_digest (a, b, c, d, e, f, g, h) =
     concat (map be_bytes32 [a, b, c, d, e, f, g, h])"

definition sha256_Sum256 :: "byte list \<Rightarrow> byte list" where
  "sha256_Sum256 m =
     (let p = sha256_pad m
      in sha256_digest
           (foldl sha256_compress sha256_init (sha256_blocks (length p div 64) p)))"

text \<open>\<open>[]byte(s)\<close>: the bytes of a string.\<close>

definition bytes_of :: "string \<Rightarrow> byte list" where
  "bytes_of s = map of_char s"

text \<open>
  \<open>binary.BigEndian.Uint64(b)\<close> reads the first eight bytes of \<open>b\<close>, most significant
  first. It panics on a shorter slice; the package calls it on \<open>hash[:8]\<close> of a
  32-byte digest only, so the panic is the \<open>None\<close> that never arises there.
\<close>

definition BigEndian_Uint64 :: "byte list \<Rightarrow> uint64 option" where
  "BigEndian_Uint64 b =
     (if length b < 8 then None
      else Some (foldl (\<lambda>acc x. push_bit 8 acc OR ucast x) 0 (take 8 b)))"

section \<open>The custom selector codec\<close>

text \<open>
  The file \<open>custom_chains_test.go\<close> holds the tests and two generations of the codec.
  The first generation (tag \<open>0xC\<close> on two bits, a hash of every chain ID, reversal by
  search) is superseded by the second (tag \<open>0xE\<close> on four bits, direct encoding, the
  hash for chain IDs beyond 60 bits only), which is the one modelled here; the two
  predicates of the first generation are kept under the suffix \<open>_v1\<close> for comparison.
\<close>

subsection \<open>Errors\<close>

text \<open>
  Every \<open>fmt.Errorf\<close> of the package is a constructor carrying the arguments of its
  format; \<open>Error\<close> renders the message. \<open>External\<close> stands for the errors of functions
  of the package that are defined in other files.
\<close>

datatype error =
    NotACustomSelector uint64
  | CouldNotReverse uint64
  | InvalidChainId string string
  | CustomChainsDisabled uint64
  | SelectorNotFound uint64
  | NameNotFound uint64
  | External string

fun Error :: "error \<Rightarrow> string" where
  "Error (NotACustomSelector s) = ''not a custom selector: '' @ FormatUint s"
| "Error (CouldNotReverse s) =
     ''could not reverse custom selector: '' @ FormatUint s @ '' (possibly hash-based)''"
| "Error (InvalidChainId c f) = ''invalid chain id '' @ c @ '' for '' @ f"
| "Error (CustomChainsDisabled c) =
     ''custom chain '' @ FormatUint c @ '' detected but ENABLE_CUSTOM_CHAINS is disabled''"
| "Error (SelectorNotFound c) = ''chain selector not found for chain '' @ FormatUint c"
| "Error (NameNotFound c) = ''chain name not found for chain '' @ FormatUint c"
| "Error (External m) = m"

subsection \<open>Encoding and decoding\<close>

text \<open>
  \<open>generateCustomChainSelector\<close>: a chain ID above \<open>0x0FFFFFFFFFFFFFFF\<close> is hashed
  (the first eight bytes of the SHA-256 of \<open>custom-testnet-chain-<id>\<close>, cut to 60 bits);
  any other chain ID is copied under the tag.
\<close>

definition hash_selector :: "uint64 \<Rightarrow> uint64" where
  "hash_selector chainID =
     (case BigEndian_Uint64
             (take 8 (sha256_Sum256 (bytes_of (''custom-testnet-chain-'' @ FormatUint chainID))))
      of Some selector \<Rightarrow> selector | None \<Rightarrow> 0)"

definition generateCustomChainSelector :: "uint64 \<Rightarrow> uint64" where
  "generateCustomChainSelector chainID =
     (if chainID > 0x0FFFFFFFFFFFFFFF
      then 0xE000000000000000 OR (hash_selector chainID AND 0x0FFFFFFFFFFFFFFF)
      else 0xE000000000000000 OR chainID)"

definition generateCustomChainName :: "uint64 \<Rightarrow> string" where
  "generateCustomChainName chainID = ''custom-testnet-'' @ FormatUint chainID"

definition isCustomSelector :: "uint64 \<Rightarrow> bool" where
  "isCustomSelector selector \<longleftrightarrow> selector AND 0xF000000000000000 = 0xE000000000000000"

definition extractChainIdFromCustomSelector :: "uint64 \<Rightarrow> error + uint64" where
  "extractChainIdFromCustomSelector selector =
     (if \<not> isCustomSelector selector then Inl (NotACustomSelector selector)
      else let chainID = selector AND 0x0FFFFFFFFFFFFFFF
           in if generateCustomChainSelector chainID = selector then Inr chainID
              else Inl (CouldNotReverse selector))"

text \<open>The predicates of the superseded generation, for comparison.\<close>

definition CUSTOM_CHAIN_RANGE :: uint64 where
  "CUSTOM_CHAIN_RANGE = 1000000"

definition isCustomSelector_v1 :: "uint64 \<Rightarrow> bool" where
  "isCustomSelector_v1 selector \<longleftrightarrow>
     selector AND 0xC000000000000000 = 0xC000000000000000"

section \<open>The registry and the resolver functions\<close>

text \<open>
  \<open>ChainDetails\<close> is the struct of \<open>evm.go\<close>. The state the functions read is the
  package variable \<open>evmChainIdToChainSelector\<close> (a map built once from the embedded
  selector files, which are given: the map is a field of the state) and the environment
  of the process, read by \<open>os.Getenv\<close>, which returns the empty string for a variable
  that is not set.
\<close>

record ChainDetails =
  ChainSelector :: uint64
  ChainName :: string

record world =
  evmChainIdToChainSelector :: "uint64 \<rightharpoonup> ChainDetails"
  environ :: "string \<rightharpoonup> string"

definition Getenv :: "world \<Rightarrow> string \<Rightarrow> string" where
  "Getenv w k = (case environ w k of Some v \<Rightarrow> v | None \<Rightarrow> [])"

definition isInOfficialSelectors :: "world \<Rightarrow> uint64 \<Rightarrow> bool" where
  "isInOfficialSelectors w chainID \<longleftrightarrow> evmChainIdToChainSelector w chainID \<noteq> None"

definition isCustomChain :: "world \<Rightarrow> uint64 \<Rightarrow> bool" where
  "isCustomChain w chainID \<longleftrightarrow> \<not> isInOfficialSelectors w chainID"

definition isCustomChain_v1 :: "world \<Rightarrow> uint64 \<Rightarrow> bool" where
  "isCustomChain_v1 w chainID \<longleftrightarrow>
     chainID \<ge> CUSTOM_CHAIN_RANGE \<or> \<not> isInOfficialSelectors w chainID"

text \<open>
  The lines \<open>fmt.Printf\<close> writes to the standard output. A function that prints returns
  the lines it has written, in order, with its result.
\<close>

definition generated_line :: "string \<Rightarrow> uint64 \<Rightarrow> uint64 \<Rightarrow> string" where
  "generated_line name chainID selector =
     [CHR 0xF0, CHR 0x9F, CHR 0x94, CHR 0xA7] @ '' Generated custom chain selector: ''
       @ name @ '' (ID: '' @ FormatUint chainID @ '', Selector: '' @ FormatUint selector
       @ [CHR '')'', CHR 0x0A]"

definition disabled_line :: "uint64 \<Rightarrow> string" where
  "disabled_line chainID =
     [CHR 0xE2, CHR 0x9A, CHR 0xA0, CHR 0xEF, CHR 0xB8, CHR 0x8F] @ ''  Custom chain ''
       @ FormatUint chainID @ '' detected but ENABLE_CUSTOM_CHAINS is disabled''
       @ [CHR 0x0A]"

text \<open>
  \<open>GetCustomChainSelector\<close>: the registered selector; otherwise, for a custom chain,
  the generated selector when \<open>ENABLE_CUSTOM_CHAINS\<close> is not \<open>false\<close>, and an error when
  it is.
\<close>

definition GetCustomChainSelector :: "world \<Rightarrow> uint64 \<Rightarrow> string list \<times> (error + uint64)" where
  "GetCustomChainSelector w chainID =
     (case evmChainIdToChainSelector w chainID of
        Some details \<Rightarrow> ([], Inr (ChainSelector details))
      | None \<Rightarrow>
          if isCustomChain w chainID then
            if Getenv w ''ENABLE_CUSTOM_CHAINS'' \<noteq> ''false'' then
              let selector = generateCustomChainSelector chainID;
                  name = generateCustomChainName chainID
              in ([generated_line name chainID selector], Inr selector)
            else ([], Inl (CustomChainsDisabled chainID))
          else ([], Inl (SelectorNotFound chainID)))"

text \<open>\<open>SelectorFromChainId\<close> and \<open>NameFromChainId\<close> of \<open>evm.go\<close>.\<close>

definition SelectorFromChainId :: "world \<Rightarrow> uint64 \<Rightarrow> string list \<times> (error + uint64)" where
  "SelectorFromChainId w chainId =
     (case evmChainIdToChainSelector w chainId of
        Some chainSelectorId \<Rightarrow> ([], Inr (ChainSelector chainSelectorId))
      | None \<Rightarrow> GetCustomChainSelector w chainId)"

definition NameFromChainId :: "world \<Rightarrow> uint64 \<Rightarrow> error + string" where
  "NameFromChainId w chainId =
     (case evmChainIdToChainSelector w chainId of
        None \<Rightarrow>
          if isCustomChain w chainId then Inr (generateCustomChainName chainId)
          else Inl (NameNotFound chainId)
      | Some details \<Rightarrow>
          if ChainName details = [] then Inr (FormatUint chainId)
          else Inr (ChainName details))"

text \<open>
  \<open>GetChainDetailsByChainIDAndFamilyWithCustom\<close> first calls
  \<open>GetChainDetailsByChainIDAndFamily\<close>, and compares the family with the constant
  \<open>FamilyEVM\<close>. Both are declared in a file of the package other than the two at hand:
  they are the parameters \<open>lookup\<close> and \<open>familyEVM\<close>.
\<close>

definition GetChainDetailsByChainIDAndFamilyWithCustom ::
  "(string \<Rightarrow> string \<Rightarrow> error + ChainDetails) \<Rightarrow> string \<Rightarrow> world \<Rightarrow> string \<Rightarrow> string
     \<Rightarrow> string list \<times> (error + ChainDetails)" where
  "GetChainDetailsByChainIDAndFamilyWithCustom lookup familyEVM w chainID family =
     (case lookup chainID family of
        Inr details \<Rightarrow> ([], Inr details)
      | Inl err \<Rightarrow>
          if family = familyEVM then
            (case ParseUint chainID of
               None \<Rightarrow> ([], Inl (InvalidChainId chainID family))
             | Some evmChainId \<Rightarrow>
                 if isCustomChain w evmChainId then
                   let selector = generateCustomChainSelector evmChainId;
                       name = generateCustomChainName evmChainId
                   in if Getenv w ''ENABLE_CUSTOM_CHAINS'' \<noteq> ''false'' then
                        ([generated_line name evmChainId selector],
                         Inr \<lparr>ChainSelector = selector, ChainName = name\<rparr>)
                      else ([disabled_line evmChainId], Inl err)
                 else ([], Inl err))
          else ([], Inl err))"

text \<open>
  A state for the examples: the registry holds Ethereum mainnet alone, and the environment
  sets \<open>ENABLE_CUSTOM_CHAINS\<close> to \<open>false\<close>.
\<close>

definition disabled_world :: world where
  "disabled_world =
     \<lparr>evmChainIdToChainSelector =
        [1 \<mapsto> \<lparr>ChainSelector = 5009297550715157269, ChainName = ''ethereum-mainnet''\<rparr>],
      environ = [''ENABLE_CUSTOM_CHAINS'' \<mapsto> ''false'']\<rparr>"

section \<open>Properties\<close>

subsection \<open>The digest has 32 bytes\<close>

text \<open>
  So \<open>hash[:8]\<close> has eight bytes and \<open>binary.BigEndian.Uint64\<close> does not panic in
  \<open>generateCustomChainSelector\<close>.
\<close>

lemma sha256_digest_length: "length (sha256_digest st) = 32"
  by (cases st rule: sha256_digest.cases) (simp add: be_bytes32_def)

lemma sha256_Sum256_length: "length (sha256_Sum256 m) = 32"
  by (simp add: sha256_Sum256_def Let_def sha256_digest_length)

lemma hash_prefix_defined: "BigEndian_Uint64 (take 8 (sha256_Sum256 m)) \<noteq> None"
  by (simp add: BigEndian_Uint64_def sha256_Sum256_length)

subsection \<open>Bit patterns\<close>

text \<open>
  The three constants of the codec split a selector into its top four bits and its low
  sixty bits.
\<close>

lemma and_low_of_le:
  "x \<le> 0x0FFFFFFFFFFFFFFF \<Longrightarrow> x AND 0x0FFFFFFFFFFFFFFF = (x::uint64)"
proof -
  assume "x \<le> 0x0FFFFFFFFFFFFFFF"
  then have "x < 2 ^ 60"
    by (simp add: word_le_nat_alt word_less_nat_alt)
  then have "x AND mask 60 = x"
    by (rule less_mask_eq)
  then show ?thesis
    by (simp add: mask_eq_exp_minus_1)
qed

lemma low_le: "(x::uint64) AND 0x0FFFFFFFFFFFFFFF \<le> 0x0FFFFFFFFFFFFFFF"
  by (rule word_and_le1)

lemma low_take: "(x::uint64) AND 0x0FFFFFFFFFFFFFFF = take_bit 60 x"
  by (simp add: take_bit_eq_mask mask_eq_exp_minus_1)

lemma tag_or_high:
  "(0xE000000000000000 OR (x AND 0x0FFFFFFFFFFFFFFF)) AND 0xF000000000000000
     = (0xE000000000000000::uint64)"
  by (simp add: bit.conj_disj_distrib2 and.assoc)

lemma tag_or_low:
  "(0xE000000000000000 OR (x AND 0x0FFFFFFFFFFFFFFF)) AND 0x0FFFFFFFFFFFFFFF
     = ((x::uint64) AND 0x0FFFFFFFFFFFFFFF)"
  by (simp add: bit.conj_disj_distrib2 and.assoc)

lemma split_nibble:
  "(x AND 0xF000000000000000) OR (x AND 0x0FFFFFFFFFFFFFFF) = (x::uint64)"
proof -
  have m: "(0xF000000000000000 OR 0x0FFFFFFFFFFFFFFF) = (- 1 :: uint64)"
    by simp
  have "(x AND 0xF000000000000000) OR (x AND 0x0FFFFFFFFFFFFFFF)
          = x AND (0xF000000000000000 OR 0x0FFFFFFFFFFFFFFF)"
    by (simp only: bit.conj_disj_distrib)
  also have "\<dots> = x"
    by (simp only: m and.right_neutral)
  finally show ?thesis .
qed

lemma high_mask: "(0xF000000000000000::uint64) = NOT (mask 60)"
  by (simp add: mask_eq_exp_minus_1 not_eq_complement)

lemma high_shift: "(x::uint64) AND 0xF000000000000000 = push_bit 60 (drop_bit 60 x)"
  unfolding high_mask by (rule bit_word_eqI) (auto simp add: bit_simps)

lemma drop_push_drop:
  "drop_bit 60 (push_bit 60 (drop_bit 60 x)) = drop_bit 60 (x::uint64)"
  by (rule bit_word_eqI) (auto simp add: bit_simps dest: bit_imp_le_length)

lemma top_nibble:
  "(x AND 0xF000000000000000 = 0xE000000000000000) = (drop_bit 60 (x::uint64) = 0xE)"
proof
  assume "x AND 0xF000000000000000 = 0xE000000000000000"
  then have "push_bit 60 (drop_bit 60 x) = 0xE000000000000000"
    by (simp only: high_shift)
  then have "drop_bit 60 (push_bit 60 (drop_bit 60 x))
               = drop_bit 60 (0xE000000000000000 :: uint64)"
    by (rule arg_cong)
  then show "drop_bit 60 x = 0xE"
    by (simp add: drop_push_drop)
next
  assume "drop_bit 60 x = 0xE"
  then have "push_bit 60 (drop_bit 60 x) = push_bit 60 (0xE::uint64)"
    by (rule arg_cong)
  then show "x AND 0xF000000000000000 = 0xE000000000000000"
    by (simp add: high_shift)
qed

subsection \<open>Both paths of the encoder\<close>

lemma generate_direct:
  "chainID \<le> 0x0FFFFFFFFFFFFFFF \<Longrightarrow>
     generateCustomChainSelector chainID = 0xE000000000000000 OR chainID"
  by (simp add: generateCustomChainSelector_def leD)

lemma generate_hashed:
  "chainID > 0x0FFFFFFFFFFFFFFF \<Longrightarrow>
     generateCustomChainSelector chainID
       = 0xE000000000000000 OR (hash_selector chainID AND 0x0FFFFFFFFFFFFFFF)"
  by (simp add: generateCustomChainSelector_def)

lemma generate_tagged:
  "generateCustomChainSelector chainID AND 0xF000000000000000 = 0xE000000000000000"
proof (cases "chainID > 0x0FFFFFFFFFFFFFFF")
  case True
  then show ?thesis
    by (simp only: generate_hashed tag_or_high)
next
  case False
  then have le: "chainID \<le> 0x0FFFFFFFFFFFFFFF"
    by simp
  have "(0xE000000000000000 OR (chainID AND 0x0FFFFFFFFFFFFFFF)) AND 0xF000000000000000
          = (0xE000000000000000::uint64)"
    by (rule tag_or_high)
  with le show ?thesis
    by (simp only: generate_direct and_low_of_le)
qed

lemma generate_payload_direct:
  "chainID \<le> 0x0FFFFFFFFFFFFFFF \<Longrightarrow>
     generateCustomChainSelector chainID AND 0x0FFFFFFFFFFFFFFF = chainID"
proof -
  assume le: "chainID \<le> 0x0FFFFFFFFFFFFFFF"
  have "(0xE000000000000000 OR (chainID AND 0x0FFFFFFFFFFFFFFF)) AND 0x0FFFFFFFFFFFFFFF
          = chainID AND 0x0FFFFFFFFFFFFFFF"
    by (rule tag_or_low)
  with le show ?thesis
    by (simp only: generate_direct and_low_of_le)
qed

text \<open>
  The decoder's check re-encodes a candidate of at most sixty bits, so the encoder takes
  its direct path and gives the selector back: the check holds for every tagged selector.
\<close>

lemma reencode_tagged:
  "isCustomSelector selector \<Longrightarrow>
     generateCustomChainSelector (selector AND 0x0FFFFFFFFFFFFFFF) = selector"
proof -
  assume "isCustomSelector selector"
  then have tag: "selector AND 0xF000000000000000 = 0xE000000000000000"
    by (simp only: isCustomSelector_def)
  have "generateCustomChainSelector (selector AND 0x0FFFFFFFFFFFFFFF)
          = 0xE000000000000000 OR (selector AND 0x0FFFFFFFFFFFFFFF)"
    using low_le by (rule generate_direct)
  also have "\<dots> = (selector AND 0xF000000000000000) OR (selector AND 0x0FFFFFFFFFFFFFFF)"
    by (simp only: tag)
  also have "\<dots> = selector"
    by (rule split_nibble)
  finally show ?thesis .
qed

lemma extract_tagged:
  "isCustomSelector selector \<Longrightarrow>
     extractChainIdFromCustomSelector selector = Inr (selector AND 0x0FFFFFFFFFFFFFFF)"
  by (simp add: extractChainIdFromCustomSelector_def reencode_tagged)

lemma extract_untagged:
  "\<not> isCustomSelector selector \<Longrightarrow>
     extractChainIdFromCustomSelector selector = Inl (NotACustomSelector selector)"
  by (simp add: extractChainIdFromCustomSelector_def)

lemma extract_generated:
  "extractChainIdFromCustomSelector (generateCustomChainSelector chainID)
     = Inr (generateCustomChainSelector chainID AND 0x0FFFFFFFFFFFFFFF)"
  by (rule extract_tagged) (simp only: isCustomSelector_def generate_tagged)

text \<open>
  A chain ID beyond sixty bits is therefore never rejected by the decoder: the selector of
  its hash decodes to the sixty hashed bits, which are not the chain ID.
\<close>

lemma hash_fallback_never_rejected:
  "chainID > 0x0FFFFFFFFFFFFFFF \<Longrightarrow>
     extractChainIdFromCustomSelector (generateCustomChainSelector chainID)
       = Inr (hash_selector chainID AND 0x0FFFFFFFFFFFFFFF)
     \<and> hash_selector chainID AND 0x0FFFFFFFFFFFFFFF \<noteq> chainID"
proof
  assume gt: "chainID > 0x0FFFFFFFFFFFFFFF"
  have "generateCustomChainSelector chainID AND 0x0FFFFFFFFFFFFFFF
          = hash_selector chainID AND 0x0FFFFFFFFFFFFFFF"
    by (simp only: generate_hashed [OF gt] tag_or_low)
  with extract_generated [of chainID]
  show "extractChainIdFromCustomSelector (generateCustomChainSelector chainID)
          = Inr (hash_selector chainID AND 0x0FFFFFFFFFFFFFFF)"
    by (simp only:)
  have "hash_selector chainID AND 0x0FFFFFFFFFFFFFFF \<le> 0x0FFFFFFFFFFFFFFF"
    by (rule low_le)
  with gt show "hash_selector chainID AND 0x0FFFFFFFFFFFFFFF \<noteq> chainID"
    by auto
qed

subsection \<open>Decimal rendering\<close>

lemma digit_char_ok: "d < 10 \<Longrightarrow> is_digit (digit_char d) \<and> digit_val (digit_char d) = d"
proof -
  assume "d < 10"
  then have "d \<in> {0, 1, 2, 3, 4, 5, 6, 7, 8, 9}"
    by auto
  then show ?thesis
    by (auto simp add: is_digit_def digit_char_def digit_val_def)
qed

lemma format_nat_digits: "list_all is_digit (format_nat n)"
  by (induction n rule: format_nat.induct) (subst format_nat.simps, simp add: digit_char_ok)

lemma format_nat_nonempty: "format_nat n \<noteq> []"
  by (subst format_nat.simps) simp

lemma dec_value_snoc: "dec_value (s @ [c]) = 10 * dec_value s + digit_val c"
  by (simp add: dec_value_def)

lemma dec_value_format: "dec_value (format_nat n) = n"
proof (induction n rule: format_nat.induct)
  case (1 n)
  show ?case
  proof (cases "n < 10")
    case True
    then show ?thesis
      by (subst format_nat.simps) (simp add: dec_value_def digit_char_ok)
  next
    case False
    with 1 show ?thesis
      by (subst format_nat.simps) (simp add: dec_value_snoc digit_char_ok)
  qed
qed

lemma ParseUint_FormatUint: "ParseUint (FormatUint x) = Some x"
proof -
  have "unat x < 2 ^ 64"
    using unsigned_less [of x] by simp
  then show ?thesis
    by (simp add: ParseUint_def FormatUint_def format_nat_digits format_nat_nonempty
        dec_value_format)
qed

lemma FormatUint_9388201: "FormatUint 9388201 = ''9388201''"
  by (simp add: FormatUint_def format_nat.simps digit_char_def)

subsection \<open>The hash of the first chain ID beyond sixty bits\<close>

lemma FormatUint_2_60: "FormatUint 0x1000000000000000 = ''1152921504606846976''"
  by (simp add: FormatUint_def format_nat.simps digit_char_def)

lemma sha256_2_60:
  "BigEndian_Uint64
     (take 8 (sha256_Sum256 (bytes_of ''custom-testnet-chain-1152921504606846976'')))
   = Some 0x40990D198F9BDBDC"
  by code_simp

lemma hash_selector_2_60: "hash_selector 0x1000000000000000 = 0x40990D198F9BDBDC"
  unfolding hash_selector_def FormatUint_2_60 using sha256_2_60 by simp

subsection \<open>The two generations of the predicates\<close>

text \<open>
  The superseded predicates differ from the current ones: a registered chain ID at or
  above \<open>CUSTOM_CHAIN_RANGE\<close> was custom, and the tag was read on two bits.
\<close>

lemma isCustomChain_v1_threshold:
  "isCustomChain_v1
     \<lparr>evmChainIdToChainSelector =
        [1000000 \<mapsto> \<lparr>ChainSelector = 5009297550715157269, ChainName = []\<rparr>],
      environ = Map.empty\<rparr> 1000000
   \<and> \<not> isCustomChain
     \<lparr>evmChainIdToChainSelector =
        [1000000 \<mapsto> \<lparr>ChainSelector = 5009297550715157269, ChainName = []\<rparr>],
      environ = Map.empty\<rparr> 1000000"
  by (simp add: isCustomChain_v1_def isCustomChain_def isInOfficialSelectors_def
      CUSTOM_CHAIN_RANGE_def)

lemma isCustomSelector_v1_two_bits:
  "isCustomSelector_v1 0xC000000000000000 \<and> \<not> isCustomSelector 0xC000000000000000"
  by (simp add: isCustomSelector_v1_def isCustomSelector_def)

subsection \<open>The example state\<close>

lemma disabled_world_flag: "Getenv disabled_world ''ENABLE_CUSTOM_CHAINS'' = ''false''"
  by (simp add: Getenv_def disabled_world_def)

lemma disabled_world_unregistered: "evmChainIdToChainSelector disabled_world 9388201 = None"
  by (simp add: disabled_world_def)

subsection \<open>The flag in the resolver functions\<close>

text \<open>
  With \<open>ENABLE_CUSTOM_CHAINS\<close> set to \<open>false\<close>, \<open>GetCustomChainSelector\<close> and
  \<open>SelectorFromChainId\<close> refuse a chain ID that the registry does not hold.
\<close>

lemma GetCustomChainSelector_disabled:
  "Getenv w ''ENABLE_CUSTOM_CHAINS'' = ''false'' \<Longrightarrow>
   evmChainIdToChainSelector w chainID = None \<Longrightarrow>
     GetCustomChainSelector w chainID = ([], Inl (CustomChainsDisabled chainID))"
  by (simp add: GetCustomChainSelector_def isCustomChain_def isInOfficialSelectors_def)

lemma SelectorFromChainId_disabled:
  "Getenv w ''ENABLE_CUSTOM_CHAINS'' = ''false'' \<Longrightarrow>
   evmChainIdToChainSelector w chainID = None \<Longrightarrow>
     SelectorFromChainId w chainID = ([], Inl (CustomChainsDisabled chainID))"
  by (simp add: SelectorFromChainId_def GetCustomChainSelector_disabled)

text \<open>
  \<open>NameFromChainId\<close> does not read the environment: it names every chain ID that the
  registry does not hold, whatever the flag.
\<close>

lemma NameFromChainId_unregistered:
  "evmChainIdToChainSelector w chainID = None \<Longrightarrow>
     NameFromChainId w chainID = Inr (generateCustomChainName chainID)"
  by (simp add: NameFromChainId_def isCustomChain_def isInOfficialSelectors_def)

text \<open>
  Where the standard lookup fails, \<open>GetChainDetailsByChainIDAndFamilyWithCustom\<close> with the
  flag set to \<open>false\<close> fails too, with the error of the lookup or, for a text that is
  not a chain ID, with its own.
\<close>

lemma WithCustom_disabled_lookup_fails:
  "Getenv w ''ENABLE_CUSTOM_CHAINS'' = ''false'' \<Longrightarrow>
   lookup s family = Inl err \<Longrightarrow>
     snd (GetChainDetailsByChainIDAndFamilyWithCustom lookup familyEVM w s family)
       \<in> {Inl err, Inl (InvalidChainId s family)}"
  by (simp add: GetChainDetailsByChainIDAndFamilyWithCustom_def Let_def split: option.split)

section \<open>The claims\<close>

text \<open>
  C1. Round trip on the direct range: for every chain ID of at most \<open>2^60 - 1\<close>, decoding
  the selector that encoding produces succeeds and returns exactly that chain ID.
\<close>

theorem roundtrip_direct:
  "chainID \<le> 0x0FFFFFFFFFFFFFFF \<Longrightarrow>
     extractChainIdFromCustomSelector (generateCustomChainSelector chainID) = Inr chainID"
  by (simp only: extract_generated generate_payload_direct)

theorem roundtrip_direct_witness:
  "(9388201::uint64) \<le> 0x0FFFFFFFFFFFFFFF
   \<and> extractChainIdFromCustomSelector (generateCustomChainSelector 9388201) = Inr 9388201"
  using roundtrip_direct [of 9388201] by simp

text \<open>
  C2. The claim: for a chain ID above \<open>2^60 - 1\<close>, which the encoder hashes, decoding the
  selector fails with the condition of an irreversible selector and never returns a
  chain ID other than the encoded one. The code does otherwise: the check of the decoder
  holds for every tagged selector, so the decoder returns the sixty hashed bits as if
  they were a chain ID. At the chain ID \<open>2^60\<close> the selector is \<open>0xE0990D198F9BDBDC\<close> and
  the decoder returns \<open>0x0990D198F9BDBDC\<close>.
\<close>

theorem hash_fallback_decodes_wrong_id:
  "generateCustomChainSelector 0x1000000000000000 = 0xE0990D198F9BDBDC
   \<and> extractChainIdFromCustomSelector (generateCustomChainSelector 0x1000000000000000)
       = Inr 0x0990D198F9BDBDC"
proof -
  have g: "generateCustomChainSelector 0x1000000000000000 = 0xE0990D198F9BDBDC"
    by (simp add: generate_hashed hash_selector_2_60)
  have "extractChainIdFromCustomSelector (generateCustomChainSelector 0x1000000000000000)
          = Inr (generateCustomChainSelector 0x1000000000000000 AND 0x0FFFFFFFFFFFFFFF)"
    by (rule extract_generated)
  with g show ?thesis
    by simp
qed

text \<open>
  C4. A selector is a custom selector exactly when its top four bits are the tag \<open>0xE\<close>;
  the predicate is a function of the selector alone.
\<close>

theorem isCustomSelector_top_nibble:
  "isCustomSelector selector \<longleftrightarrow> drop_bit 60 selector = 0xE"
  by (simp only: isCustomSelector_def top_nibble)

text \<open>
  C5. For every selector whose top four bits are not the tag, decoding fails at once with
  the error of a selector that is not custom, and returns no chain ID.
\<close>

theorem extract_rejects_untagged:
  "drop_bit 60 selector \<noteq> 0xE \<Longrightarrow>
     extractChainIdFromCustomSelector selector = Inl (NotACustomSelector selector)"
  by (rule extract_untagged) (simp only: isCustomSelector_def top_nibble not_False_eq_True)

theorem extract_rejects_untagged_witness:
  "drop_bit 60 (5009297550715157269::uint64) \<noteq> 0xE
   \<and> extractChainIdFromCustomSelector 5009297550715157269
       = Inl (NotACustomSelector 5009297550715157269)"
  using extract_rejects_untagged [of 5009297550715157269] by (simp add: drop_bit_eq_div)

text \<open>
  C6. For every chain ID of at most \<open>2^60 - 1\<close> the selector is the tag or-ed with the
  chain ID: its top four bits are the tag, its low sixty bits are the chain ID, and
  decoding it returns the chain ID. At \<open>9388201\<close> the selector is \<open>0xE0000000008F40A9\<close>.
\<close>

theorem direct_encoding:
  "chainID \<le> 0x0FFFFFFFFFFFFFFF \<Longrightarrow>
     generateCustomChainSelector chainID = 0xE000000000000000 OR chainID
     \<and> drop_bit 60 (generateCustomChainSelector chainID) = 0xE
     \<and> take_bit 60 (generateCustomChainSelector chainID) = chainID
     \<and> extractChainIdFromCustomSelector (generateCustomChainSelector chainID) = Inr chainID"
proof (intro conjI)
  assume le: "chainID \<le> 0x0FFFFFFFFFFFFFFF"
  then show "generateCustomChainSelector chainID = 0xE000000000000000 OR chainID"
    by (rule generate_direct)
  show "drop_bit 60 (generateCustomChainSelector chainID) = 0xE"
    by (simp only: top_nibble [symmetric] generate_tagged)
  from le show "take_bit 60 (generateCustomChainSelector chainID) = chainID"
    by (simp only: low_take [symmetric] generate_payload_direct)
  from le show "extractChainIdFromCustomSelector (generateCustomChainSelector chainID)
                  = Inr chainID"
    by (simp only: extract_generated generate_payload_direct)
qed

theorem direct_encoding_witness:
  "(9388201::uint64) \<le> 0x0FFFFFFFFFFFFFFF
   \<and> generateCustomChainSelector 9388201 = 0xE0000000008F40A9
   \<and> drop_bit 60 (generateCustomChainSelector 9388201) = 0xE
   \<and> take_bit 60 (generateCustomChainSelector 9388201) = 9388201
   \<and> extractChainIdFromCustomSelector (generateCustomChainSelector 9388201) = Inr 9388201"
proof -
  have le: "(9388201::uint64) \<le> 0x0FFFFFFFFFFFFFFF"
    by simp
  note d = direct_encoding [OF le]
  from d have "generateCustomChainSelector 9388201 = 0xE0000000008F40A9"
    by simp
  with le d show ?thesis
    by blast
qed

text \<open>
  C7. Every selector the encoder returns carries the tag, on the direct path and on the
  hash path alike.
\<close>

theorem generated_is_custom:
  "isCustomSelector (generateCustomChainSelector chainID)"
  by (simp only: isCustomSelector_def generate_tagged)

text \<open>
  C10. For every selector whose top four bits are the tag, decoding succeeds and returns
  the low sixty bits: the check by re-encoding cannot fail, and the error of a selector
  that could not be reversed is never returned.
\<close>

theorem extract_never_irreversible:
  "(isCustomSelector selector \<longrightarrow>
      extractChainIdFromCustomSelector selector = Inr (selector AND 0x0FFFFFFFFFFFFFFF))
   \<and> extractChainIdFromCustomSelector selector \<noteq> Inl (CouldNotReverse s)"
  by (cases "isCustomSelector selector") (simp_all add: extract_tagged extract_untagged)

theorem extract_never_irreversible_witness:
  "isCustomSelector 0xEFFFFFFFFFFFFFFF
   \<and> extractChainIdFromCustomSelector 0xEFFFFFFFFFFFFFFF = Inr 0x0FFFFFFFFFFFFFFF"
  using extract_never_irreversible [of "0xEFFFFFFFFFFFFFFF"]
  by (simp add: isCustomSelector_def)

text \<open>
  C3. A chain ID is custom exactly when the registry does not hold it, whatever its
  value: removing a chain ID from the registry makes it custom, and registering it makes
  it not custom.
\<close>

theorem isCustomChain_iff_unregistered:
  "(isCustomChain w chainID \<longleftrightarrow> chainID \<notin> dom (evmChainIdToChainSelector w))
   \<and> isCustomChain
       (w\<lparr>evmChainIdToChainSelector := (evmChainIdToChainSelector w)(chainID := None)\<rparr>)
       chainID
   \<and> \<not> isCustomChain
       (w\<lparr>evmChainIdToChainSelector := (evmChainIdToChainSelector w)(chainID \<mapsto> d)\<rparr>)
       chainID"
  by (auto simp add: isCustomChain_def isInOfficialSelectors_def)

text \<open>
  C8. The claim: with the flag disabled, every attempt to resolve a chain ID that the
  registry does not hold fails with the condition that custom chains are disabled.
  \<open>GetCustomChainSelector\<close> and \<open>SelectorFromChainId\<close> do so. \<open>NameFromChainId\<close> does
  not: in the state where \<open>ENABLE_CUSTOM_CHAINS\<close> is \<open>false\<close> and the registry holds
  Ethereum mainnet alone, it resolves the chain ID \<open>9388201\<close> to its generated name,
  where \<open>SelectorFromChainId\<close> beside it fails.
\<close>

theorem name_resolution_ignores_disabled_flag:
  "Getenv disabled_world ''ENABLE_CUSTOM_CHAINS'' = ''false''
   \<and> evmChainIdToChainSelector disabled_world 9388201 = None
   \<and> GetCustomChainSelector disabled_world 9388201 = ([], Inl (CustomChainsDisabled 9388201))
   \<and> SelectorFromChainId disabled_world 9388201 = ([], Inl (CustomChainsDisabled 9388201))
   \<and> NameFromChainId disabled_world 9388201 = Inr ''custom-testnet-9388201''"
  by (simp add: disabled_world_flag disabled_world_unregistered
      GetCustomChainSelector_disabled SelectorFromChainId_disabled
      NameFromChainId_unregistered generateCustomChainName_def FormatUint_9388201)

text \<open>
  C9. The name of a custom chain is the prefix \<open>custom-testnet-\<close> followed by the decimal
  rendering of the chain ID: a non-empty string of digits whose value is the chain ID and
  which parses back to it. The function returns a string for every chain ID and has no
  error result.
\<close>

theorem custom_name_decimal:
  "generateCustomChainName chainID = ''custom-testnet-'' @ FormatUint chainID
   \<and> FormatUint chainID \<noteq> []
   \<and> list_all is_digit (FormatUint chainID)
   \<and> dec_value (FormatUint chainID) = unat chainID
   \<and> ParseUint (FormatUint chainID) = Some chainID"
  by (simp add: generateCustomChainName_def ParseUint_FormatUint)
    (simp add: FormatUint_def format_nat_nonempty format_nat_digits dec_value_format)

theorem custom_name_decimal_witness:
  "generateCustomChainName 9388201 = ''custom-testnet-9388201''"
  using custom_name_decimal [of 9388201] by (simp add: FormatUint_9388201)

end
